theory Spec2Isabelle
  imports Main
begin

section \<open>The Jenkins job action: data\<close>

text \<open>
  The program (\<^verbatim>\<open>src/index.js\<close>) triggers a Jenkins job and, when asked to, polls the
  job's queue item and then its build until the build ends. It is an asynchronous,
  single-threaded program: it runs until it suspends at an \<^verbatim>\<open>await\<close> (of an HTTP reply
  or of a sleep), and is resumed by the event loop. The model passes the module's
  variables and the calls made on the collaborators (HTTP client, output sink, timers)
  explicitly in a record, and takes what the environment does as a list of events.

  The log lines written with \<^verbatim>\<open>core.info\<close> and \<^verbatim>\<open>core.error\<close> have no effect on the
  control flow and are not modelled.
\<close>

subsection \<open>Constants\<close>

definition FAILURE_THRESHOLD :: nat where
  "FAILURE_THRESHOLD = 10"

definition SUCCESS_THRESHOLD :: nat where
  "SUCCESS_THRESHOLD = 3"

definition sleepInterval :: nat where
  "sleepInterval = 10"

subsection \<open>Exceptions\<close>

text \<open>
  The values the program throws or rejects a promise with: the two classes it declares,
  plain \<^verbatim>\<open>Error\<close>, the error object of the HTTP client, the errors the runtime raises
  itself, and \<^verbatim>\<open>undefined\<close> (what \<^verbatim>\<open>reject()\<close> without an argument rejects with).
\<close>

datatype js_exn =
    BadGatewayError string
  | JenkinsAPIError string
  | Error string
  | RequestError string
  | TypeError string
  | SyntaxError string
  | Undefined

text \<open>\<^verbatim>\<open>err.message\<close>: reading a property of \<^verbatim>\<open>undefined\<close> throws, which is \<open>None\<close> here.\<close>

fun message :: "js_exn \<Rightarrow> string option" where
  "message (BadGatewayError m) = Some m"
| "message (JenkinsAPIError m) = Some m"
| "message (Error m) = Some m"
| "message (RequestError m) = Some m"
| "message (TypeError m) = Some m"
| "message (SyntaxError m) = Some m"
| "message Undefined = None"

text \<open>\<^verbatim>\<open>error instanceof BadGatewayError\<close>\<close>

fun instanceof_BadGatewayError :: "js_exn \<Rightarrow> bool" where
  "instanceof_BadGatewayError (BadGatewayError m) = True"
| "instanceof_BadGatewayError e = False"

subsection \<open>HTTP replies\<close>

text \<open>
  The status document of Jenkins, with the fields the program reads, each of the type
  the interface gives it, or absent. \<open>cancelled\<close> is the truth value of the field (an
  absent field is falsy).
\<close>

record executable_descriptor =
  url :: "string option"

record document =
  cancelled :: bool
  executable :: "executable_descriptor option"
  why :: "string option"
  result :: "string option"
  fullDisplayName :: "string option"

text \<open>
  The body of a reply, as \<^verbatim>\<open>JSON.parse\<close> sees it: no text at all (a zero-length or
  absent body), text that is not JSON (with the parser's complaint), the JSON text
  \<^verbatim>\<open>null\<close>, or a status document.
\<close>

datatype body = NoBody | Malformed string | JsonNull | JsonDocument document

text \<open>
  \<^verbatim>\<open>JSON.parse\<close> throws a \<^verbatim>\<open>SyntaxError\<close> on text that is not JSON, the empty text
  included; \<open>Inr None\<close> is the value \<^verbatim>\<open>null\<close>.
\<close>

fun JSON_parse :: "body \<Rightarrow> js_exn + document option" where
  "JSON_parse NoBody = Inl (SyntaxError ''Unexpected end of JSON input'')"
| "JSON_parse (Malformed m) = Inl (SyntaxError m)"
| "JSON_parse JsonNull = Inr None"
| "JSON_parse (JsonDocument d) = Inr (Some d)"

record response =
  statusCode :: nat
  location :: "string option"
  body :: body

text \<open>
  What the HTTP client calls the callback with: an error (and then no response
  object), or a response.
\<close>

datatype reply = NetworkError string | Responded response

text \<open>
  What the event loop delivers while the program is suspended: the deadline timer
  fires, or the reply to the pending request arrives.
\<close>

datatype event = TimerFires | Reply reply

subsection \<open>State and effects\<close>

datatype reported = Message string | ErrorObject js_exn

datatype action =
    Post string "(string \<times> string) list"
  | Get string
  | Sleep nat
  | SetOutput string string
  | SetFailed reported
  | ClearTimeout

text \<open>
  The module's variables, whether the deadline timer is still pending, and the calls
  made on the collaborators so far, in order.
\<close>

record world =
  failureCount :: nat
  successCount :: nat
  jenkinsBuildUrl :: "string option"
  timer :: bool
  effects :: "action list"

definition initial :: world where
  "initial = \<lparr>failureCount = 0, successCount = 0, jenkinsBuildUrl = None,
              timer = True, effects = []\<rparr>"

definition emit :: "action \<Rightarrow> world \<Rightarrow> world" where
  "emit a w = w\<lparr>effects := effects w @ [a]\<rparr>"

definition clearTimeout :: "world \<Rightarrow> world" where
  "clearTimeout w = emit ClearTimeout (w\<lparr>timer := False\<rparr>)"

definition sleep :: "nat \<Rightarrow> world \<Rightarrow> world" where
  "sleep seconds w = emit (Sleep seconds) w"

text \<open>
  The callback of the deadline timer (lines 33 to 36). It marks the run as failed and
  does nothing else. A timer that was cleared, or has fired, does not fire.
\<close>

definition timerCallback :: "world \<Rightarrow> world" where
  "timerCallback w =
     (if timer w then emit (SetFailed (Message ''Job Timeout'')) (w\<lparr>timer := False\<rparr>)
      else w)"

subsection \<open>Strings\<close>

text \<open>\<^verbatim>\<open>s.endsWith(t)\<close>\<close>

definition endsWith :: "string \<Rightarrow> string \<Rightarrow> bool" where
  "endsWith s t = (length t \<le> length s \<and> drop (length s - length t) s = t)"

text \<open>A string is truthy when it is not empty.\<close>

definition truthy :: "string \<Rightarrow> bool" where
  "truthy s = (s \<noteq> [])"

text \<open>A value of a template literal: an absent one prints as \<^verbatim>\<open>undefined\<close>.\<close>

fun interpolate :: "string option \<Rightarrow> string" where
  "interpolate None = ''undefined''"
| "interpolate (Some s) = s"

text \<open>The character \<^verbatim>\<open>'\<close>.\<close>

definition quote :: string where
  "quote = [CHR 0x27]"

definition digits :: string where
  "digits = ''0123456789''"

function decimal :: "nat \<Rightarrow> string" where
  "decimal n = (if n < 10 then [digits ! n] else decimal (n div 10) @ [digits ! (n mod 10)])"
  by pat_completeness auto
termination
  by (relation "measure id") auto

declare decimal.simps [simp del]

section \<open>Promises\<close>

text \<open>
  A promise settles once: \<^verbatim>\<open>resolve\<close> and \<^verbatim>\<open>reject\<close> on a settled promise do nothing.
\<close>

datatype 'a promise = Pending | Fulfilled 'a | Rejected js_exn

fun resolve :: "'a \<Rightarrow> 'a promise \<Rightarrow> 'a promise" where
  "resolve v Pending = Fulfilled v"
| "resolve v p = p"

fun reject :: "js_exn \<Rightarrow> 'a promise \<Rightarrow> 'a promise" where
  "reject e Pending = Rejected e"
| "reject e p = p"

text \<open>
  How an awaited call ends: it returns a value, it throws, an exception escapes a
  callback of the HTTP client (nothing catches it and the process dies), or the
  program stays suspended (the events given do not hold the reply it waits for).
\<close>

datatype 'a completion = Returned 'a | Threw js_exn | Crashed js_exn | Suspended

text \<open>
  The end of a callback that was given a pending promise: the exception it threw, if
  any, and the promise.
\<close>

fun awaited :: "js_exn option \<Rightarrow> 'a promise \<Rightarrow> 'a completion" where
  "awaited (Some e) p = Crashed e"
| "awaited None (Fulfilled v) = Returned v"
| "awaited None (Rejected e) = Threw e"
| "awaited None Pending = Suspended"

section \<open>getJobStatus\<close>

text \<open>Lines 80 to 84: the URL of the request.\<close>

definition normalizeUrl :: "string \<Rightarrow> string" where
  "normalizeUrl statusUrl = (if \<not> endsWith statusUrl ''/'' then statusUrl @ ''/'' else statusUrl)"

definition requestUrl :: "string \<Rightarrow> string" where
  "requestUrl statusUrl = normalizeUrl statusUrl @ ''api/json''"

text \<open>Lines 79 to 89: the part of \<^verbatim>\<open>getJobStatus\<close> that runs before it suspends.\<close>

definition getJobStatus_request :: "string \<Rightarrow> world \<Rightarrow> world" where
  "getJobStatus_request statusUrl w = emit (Get (requestUrl statusUrl)) w"

text \<open>
  Lines 97 to 121, the \<^verbatim>\<open>switch\<close> on the status code. The case of 502 has no
  \<^verbatim>\<open>break\<close> and falls through to the default case; the promise keeps the first
  rejection. An exception of \<^verbatim>\<open>JSON.parse\<close> leaves the callback.
\<close>

definition statusSwitch ::
  "response \<Rightarrow> world \<Rightarrow> document option promise
     \<Rightarrow> js_exn option \<times> document option promise \<times> world" where
  "statusSwitch res w p =
     (if statusCode res = 200 then
        (case JSON_parse (body res) of
           Inl e \<Rightarrow> (Some e, p, w)
         | Inr data \<Rightarrow> (None, resolve data p, w))
      else if statusCode res = 502 then
        (let p1 = (if failureCount w > FAILURE_THRESHOLD
                   then reject (JenkinsAPIError ''Failure Threshold reached, exiting script.....'') p
                   else p);
             w1 = w\<lparr>failureCount := failureCount w + 1\<rparr>;
             p2 = reject (BadGatewayError
                    (''Wrong http response from host - '' @ decimal (statusCode res))) p1;
             p3 = reject (JenkinsAPIError
                    (''Unknown API error code received: '' @ decimal (statusCode res))) p2
         in (None, p3, w1))
      else
        (None,
         reject (JenkinsAPIError
           (''Unknown API error code received: '' @ decimal (statusCode res))) p,
         w))"

text \<open>
  Lines 90 to 122, the callback of the request. On an error of the client it clears
  the timer and rejects, but does not return: it goes on to read \<^verbatim>\<open>res.statusCode\<close>,
  where \<^verbatim>\<open>res\<close> is \<^verbatim>\<open>undefined\<close>, which throws.
\<close>

definition getJobStatus_callback ::
  "reply \<Rightarrow> world \<Rightarrow> js_exn option \<times> document option promise \<times> world" where
  "getJobStatus_callback r w =
     (case r of
        NetworkError m \<Rightarrow>
          (let w1 = clearTimeout w;
               p1 = reject (RequestError m) Pending
           in (Some (TypeError
                 (''Cannot read properties of undefined (reading '' @ quote @ ''statusCode''
                    @ quote @ '')'')),
               p1, w1))
      | Responded res \<Rightarrow> statusSwitch res w Pending)"

text \<open>What \<^verbatim>\<open>await getJobStatus(...)\<close> gives once the reply \<open>r\<close> has arrived.\<close>

definition getJobStatus :: "reply \<Rightarrow> world \<Rightarrow> document option completion \<times> world" where
  "getJobStatus r w =
     (case getJobStatus_callback r w of (thrown, p, w') \<Rightarrow> (awaited thrown p, w'))"

section \<open>waitJenkinsJob\<close>

text \<open>
  The executable URL of a queue document, when line 139 finds one:
  \<^verbatim>\<open>queueData.executable && queueData.executable.url\<close> is truthy.
\<close>

definition executableUrl :: "document \<Rightarrow> string option" where
  "executableUrl queueData =
     (case executable queueData of
        None \<Rightarrow> None
      | Some e \<Rightarrow> (case url e of
                    None \<Rightarrow> None
                  | Some u \<Rightarrow> if truthy u then Some u else None))"

text \<open>
  The loop of \<^verbatim>\<open>waitJenkinsJob\<close> suspends at the two calls of \<^verbatim>\<open>getJobStatus\<close> and
  at the sleeps. The model follows the loop from one reply to the next: \<open>queuePoll\<close>
  is lines 134 to 158, resumed with the reply to the request of line 134, and
  \<open>buildPoll\<close> is lines 161 to 205, resumed with the reply to the request of line 162.
  Each gives either the way the function ends or the next turn of the loop.

  The request of line 134 is outside the \<^verbatim>\<open>try\<close> block, so whatever it throws
  leaves \<^verbatim>\<open>waitJenkinsJob\<close>. Reading \<^verbatim>\<open>queueData.cancelled\<close> of \<^verbatim>\<open>null\<close> throws.
  \<open>Inr b\<close> is the next turn of the loop with the local variable \<^verbatim>\<open>buildUrl\<close>
  equal to \<open>b\<close>.
\<close>

definition queuePoll ::
  "string \<Rightarrow> reply \<Rightarrow> world \<Rightarrow> (unit completion + string option) \<times> world" where
  "queuePoll jobName r w =
     (case getJobStatus r w of
        (Returned None, w1) \<Rightarrow>
          (Inl (Threw (TypeError
             (''Cannot read properties of null (reading '' @ quote @ ''cancelled'' @ quote @ '')''))),
           w1)
      | (Returned (Some queueData), w1) \<Rightarrow>
          if cancelled queueData
          then (Inl (Threw (Error (''Job '' @ quote @ jobName @ quote @ '' was cancelled.''))), w1)
          else
            (case executableUrl queueData of
               Some buildUrl \<Rightarrow>
                 (let w2 = w1\<lparr>jenkinsBuildUrl :=
                             (if jenkinsBuildUrl w1 = None then Some buildUrl else Some buildUrl)\<rparr>;
                      w3 = (case jenkinsBuildUrl w2 of
                              Some v \<Rightarrow> if truthy v then emit (SetOutput ''jenkinsBuildUrl'' v) w2
                                        else w2
                            | None \<Rightarrow> w2)
                  in (Inr (Some buildUrl), w3))
             | None \<Rightarrow> (Inr None, sleep sleepInterval w1))
      | (Threw e, w1) \<Rightarrow> (Inl (Threw e), w1)
      | (Crashed e, w1) \<Rightarrow> (Inl (Crashed e), w1)
      | (Suspended, w1) \<Rightarrow> (Inl Suspended, w1))"

text \<open>
  Lines 194 to 205, the \<^verbatim>\<open>catch\<close> block: \<open>None\<close> is \<^verbatim>\<open>continue\<close>.
\<close>

definition catchBlock :: "js_exn \<Rightarrow> world \<Rightarrow> unit completion option \<times> world" where
  "catchBlock error w =
     (if instanceof_BadGatewayError error then (None, sleep sleepInterval w)
      else
        (case message error of
           None \<Rightarrow>
             (Some (Threw (TypeError
                (''Cannot read properties of undefined (reading '' @ quote @ ''message'' @ quote @ '')''))),
              w)
         | Some m \<Rightarrow> (Some (Threw (Error (''Prod-to-env sync job failed,  '' @ m))), w)))"

text \<open>
  Lines 161 to 205: \<open>None\<close> is the next turn of the loop, \<open>Some c\<close> the way the
  function ends (\<open>Returned ()\<close> is the \<^verbatim>\<open>break\<close> of line 178).
\<close>

definition buildPoll :: "reply \<Rightarrow> world \<Rightarrow> unit completion option \<times> world" where
  "buildPoll r w =
     (case getJobStatus r w of
        (Returned None, w1) \<Rightarrow> (None, sleep sleepInterval w1)
      | (Returned (Some buildData), w1) \<Rightarrow>
          if result buildData = Some ''SUCCESS'' then
            (if successCount w1 \<ge> SUCCESS_THRESHOLD then (Some (Returned ()), w1)
             else (None, sleep sleepInterval (w1\<lparr>successCount := successCount w1 + 1\<rparr>)))
          else if result buildData = Some ''FAILURE'' \<or> result buildData = Some ''ABORTED'' then
            catchBlock
              (Error (''Job '' @ quote @ interpolate (fullDisplayName buildData) @ quote @ '' - ''
                        @ interpolate (jenkinsBuildUrl w1) @ '' failed.''))
              w1
          else (None, sleep sleepInterval w1)
      | (Threw e, w1) \<Rightarrow> catchBlock e w1
      | (Crashed e, w1) \<Rightarrow> (Some (Crashed e), w1)
      | (Suspended, w1) \<Rightarrow> (Some Suspended, w1))"

text \<open>
  The loop, suspended at a call of \<^verbatim>\<open>getJobStatus\<close> whose request has been sent:
  the one of line 134 while \<^verbatim>\<open>buildUrl\<close> is undefined, the one of line 162 after.
  When the queue document names the build, the same turn of the loop goes on to
  line 162 without a sleep.

  An event \<open>TimerFires\<close> runs the callback of the timer while the program is
  suspended. A firing during a sleep is given as a firing while the reply to the next
  request is awaited: the callback touches nothing that the loop reads, so the two
  differ only in whether the mark of the timeout stands before or after that request
  in the list of calls. With no event left the program stays suspended.
\<close>

fun polling ::
  "string \<Rightarrow> string \<Rightarrow> string option \<Rightarrow> world \<Rightarrow> event list \<Rightarrow> unit completion \<times> world" where
  "polling jobName queueItemUrl buildUrl w [] = (Suspended, w)"
| "polling jobName queueItemUrl buildUrl w (TimerFires # evs) =
     polling jobName queueItemUrl buildUrl (timerCallback w) evs"
| "polling jobName queueItemUrl None w (Reply r # evs) =
     (case queuePoll jobName r w of
        (Inl c, w') \<Rightarrow> (c, w')
      | (Inr None, w') \<Rightarrow>
          polling jobName queueItemUrl None (getJobStatus_request queueItemUrl w') evs
      | (Inr (Some buildUrl), w') \<Rightarrow>
          polling jobName queueItemUrl (Some buildUrl) (getJobStatus_request buildUrl w') evs)"
| "polling jobName queueItemUrl (Some buildUrl) w (Reply r # evs) =
     (case buildPoll r w of
        (Some c, w') \<Rightarrow> (c, w')
      | (None, w') \<Rightarrow>
          polling jobName queueItemUrl (Some buildUrl) (getJobStatus_request buildUrl w') evs)"

definition waitJenkinsJob ::
  "string \<Rightarrow> string \<Rightarrow> world \<Rightarrow> event list \<Rightarrow> unit completion \<times> world" where
  "waitJenkinsJob jobName queueItemUrl w evs =
     polling jobName queueItemUrl None (getJobStatus_request queueItemUrl w) evs"

section \<open>triggerJenkinsJob and main\<close>

text \<open>
  The configuration, as \<^verbatim>\<open>core.getInput\<close> returns it (the empty string for an input
  that is not set). The input \<^verbatim>\<open>parameter\<close> is given with what \<^verbatim>\<open>JSON.parse\<close> makes
  of it.
\<close>

datatype parameter_input = NotSet | NotJson string | Parameters "(string \<times> string) list"

record inputs =
  endpoint :: string
  job_name :: string
  parameter :: parameter_input
  wait :: string

text \<open>Lines 45 to 55: the request of \<^verbatim>\<open>triggerJenkinsJob\<close>.\<close>

definition triggerJenkinsJob_request ::
  "string \<Rightarrow> string \<Rightarrow> (string \<times> string) list \<Rightarrow> world \<Rightarrow> world" where
  "triggerJenkinsJob_request jenkinsEndpoint jobName params w =
     emit (Post (jenkinsEndpoint @ ''/job/'' @ jobName @ ''/buildWithParameters'') params) w"

text \<open>
  Lines 56 to 75, the callback: both failures report their message themselves and
  reject without a value.
\<close>

definition triggerJenkinsJob_callback :: "reply \<Rightarrow> world \<Rightarrow> string promise \<times> world" where
  "triggerJenkinsJob_callback r w =
     (case r of
        NetworkError m \<Rightarrow>
          (reject Undefined Pending,
           clearTimeout (emit (SetFailed (ErrorObject (RequestError m))) w))
      | Responded res \<Rightarrow>
          (case location res of
             None \<Rightarrow>
               (reject Undefined Pending,
                clearTimeout
                  (emit (SetFailed (Message ''Failed to find location header in response!'')) w))
           | Some l \<Rightarrow>
               if \<not> truthy l then
                 (reject Undefined Pending,
                  clearTimeout
                    (emit (SetFailed (Message ''Failed to find location header in response!'')) w))
               else (resolve l Pending, w)))"

definition triggerJenkinsJob :: "reply \<Rightarrow> world \<Rightarrow> string completion \<times> world" where
  "triggerJenkinsJob r w =
     (case triggerJenkinsJob_callback r w of (p, w') \<Rightarrow> (awaited None p, w'))"

text \<open>
  Waiting for the reply to a request: the timer may fire before it arrives.
\<close>

fun awaitReply :: "world \<Rightarrow> event list \<Rightarrow> (reply \<times> event list) option \<times> world" where
  "awaitReply w [] = (None, w)"
| "awaitReply w (TimerFires # evs) = awaitReply (timerCallback w) evs"
| "awaitReply w (Reply r # evs) = (Some (r, evs), w)"

text \<open>
  How the process ends: \<^verbatim>\<open>main\<close> ran to its end, the promise of \<^verbatim>\<open>main\<close> was rejected
  (nothing handles it), an exception escaped a callback, or the program is still
  suspended after the last event given.
\<close>

datatype exit = Finished | UnhandledRejection js_exn | UncaughtException js_exn | StillRunning

text \<open>
  Lines 229 to 234: what \<^verbatim>\<open>main\<close> does with the end of its \<^verbatim>\<open>try\<close> block. The
  \<^verbatim>\<open>catch\<close> block reads \<^verbatim>\<open>err.message\<close>, which throws when \<^verbatim>\<open>err\<close> is \<^verbatim>\<open>undefined\<close>;
  the \<^verbatim>\<open>finally\<close> block runs in every case but the two in which the program does
  not get there.
\<close>

fun finish :: "'a completion \<times> world \<Rightarrow> exit \<times> world" where
  "finish (Returned v, w) = (Finished, clearTimeout w)"
| "finish (Threw err, w) =
     (case message err of
        None \<Rightarrow>
          (UnhandledRejection
             (TypeError
                (''Cannot read properties of undefined (reading '' @ quote @ ''message'' @ quote @ '')'')),
           clearTimeout w)
      | Some m \<Rightarrow> (Finished, clearTimeout (emit (SetFailed (Message m)) w)))"
| "finish (Crashed e, w) = (UncaughtException e, w)"
| "finish (Suspended, w) = (StillRunning, w)"

text \<open>Lines 219 to 228, from the reply to the trigger on.\<close>

definition afterTrigger ::
  "inputs \<Rightarrow> reply \<Rightarrow> world \<Rightarrow> event list \<Rightarrow> unit completion \<times> world" where
  "afterTrigger inp r w evs =
     (case triggerJenkinsJob r w of
        (Returned queueItemUrl, w1) \<Rightarrow>
          if wait inp = ''true'' then waitJenkinsJob (job_name inp) queueItemUrl w1 evs
          else (Returned (), w1)
      | (Threw e, w1) \<Rightarrow> (Threw e, w1)
      | (Crashed e, w1) \<Rightarrow> (Crashed e, w1)
      | (Suspended, w1) \<Rightarrow> (Suspended, w1))"

text \<open>Lines 211 to 217: the parameters of the job.\<close>

fun parseParameter :: "parameter_input \<Rightarrow> js_exn + (string \<times> string) list" where
  "parseParameter NotSet = Inr []"
| "parseParameter (NotJson m) = Inl (SyntaxError m)"
| "parseParameter (Parameters params) = Inr params"

text \<open>Lines 210 to 228: the \<^verbatim>\<open>try\<close> block of \<^verbatim>\<open>main\<close>.\<close>

definition tryBlock :: "inputs \<Rightarrow> world \<Rightarrow> event list \<Rightarrow> unit completion \<times> world" where
  "tryBlock inp w evs =
     (case parseParameter (parameter inp) of
        Inl e \<Rightarrow> (Threw e, w)
      | Inr params \<Rightarrow>
          (case awaitReply
                  (triggerJenkinsJob_request (endpoint inp) (job_name inp) params w) evs of
             (None, w2) \<Rightarrow> (Suspended, w2)
           | (Some (r, rest), w2) \<Rightarrow> afterTrigger inp r w2 rest))"

text \<open>Lines 209 to 235, run in a given state of the module.\<close>

definition main_from :: "world \<Rightarrow> inputs \<Rightarrow> event list \<Rightarrow> exit \<times> world" where
  "main_from w inp evs = finish (tryBlock inp w evs)"

text \<open>The program: the module is loaded (lines 10 to 12 and 33) and \<^verbatim>\<open>main\<close> is called.\<close>

definition main :: "inputs \<Rightarrow> event list \<Rightarrow> exit \<times> world" where
  "main inp evs = main_from initial inp evs"

section \<open>Observations and scenarios\<close>

text \<open>What a run did to the collaborators, read off the calls it made.\<close>

fun failuresOf :: "action list \<Rightarrow> reported list" where
  "failuresOf [] = []"
| "failuresOf (SetFailed m # as) = m # failuresOf as"
| "failuresOf (a # as) = failuresOf as"


fun pollsOf :: "action list \<Rightarrow> string list" where
  "pollsOf [] = []"
| "pollsOf (Get u # as) = u # pollsOf as"
| "pollsOf (a # as) = pollsOf as"

text \<open>The calls of a run, without the mark that the callback of the timer leaves.\<close>

definition untimed :: "action list \<Rightarrow> action list" where
  "untimed as = filter (\<lambda>a. a \<noteq> SetFailed (Message ''Job Timeout'')) as"

text \<open>Two states with the same values of the module's variables.\<close>

definition sameState :: "world \<Rightarrow> world \<Rightarrow> bool" where
  "sameState w1 w2 =
     (failureCount w1 = failureCount w2 \<and> successCount w1 = successCount w2 \<and>
      jenkinsBuildUrl w1 = jenkinsBuildUrl w2)"

definition agree :: "world \<Rightarrow> world \<Rightarrow> bool" where
  "agree w1 w2 = (sameState w1 w2 \<and> untimed (effects w1) = untimed (effects w2))"


fun successRead :: "event \<Rightarrow> bool" where
  "successRead TimerFires = False"
| "successRead (Reply (NetworkError m)) = False"
| "successRead (Reply (Responded res)) =
     (statusCode res = 200 \<and>
      (case body res of
         JsonDocument d \<Rightarrow> result d = Some ''SUCCESS''
       | _ \<Rightarrow> False))"

fun runningRead :: "event \<Rightarrow> bool" where
  "runningRead TimerFires = False"
| "runningRead (Reply (NetworkError m)) = False"
| "runningRead (Reply (Responded res)) =
     (statusCode res = 200 \<and>
      (case body res of
         JsonDocument d \<Rightarrow> result d \<noteq> Some ''SUCCESS'' \<and> result d \<noteq> Some ''FAILURE''
                             \<and> result d \<noteq> Some ''ABORTED''
       | _ \<Rightarrow> False))"

text \<open>Replies of the server, for the scenarios below.\<close>

definition noDocument :: document where
  "noDocument = \<lparr>cancelled = False, executable = None, why = None, result = None,
                  fullDisplayName = None\<rparr>"

definition http :: "nat \<Rightarrow> body \<Rightarrow> event" where
  "http code b = Reply (Responded \<lparr>statusCode = code, location = None, body = b\<rparr>)"

definition triggered :: "string \<Rightarrow> event" where
  "triggered queueItemUrl =
     Reply (Responded \<lparr>statusCode = 201, location = Some queueItemUrl, body = NoBody\<rparr>)"


definition assigned :: "string \<Rightarrow> event" where
  "assigned buildUrl =
     http 200 (JsonDocument (noDocument\<lparr>executable := Some \<lparr>url = Some buildUrl\<rparr>\<rparr>))"

definition building :: "string option \<Rightarrow> event" where
  "building r =
     http 200 (JsonDocument (noDocument\<lparr>result := r, fullDisplayName := Some ''j #5''\<rparr>))"

definition waiting :: inputs where
  "waiting = \<lparr>endpoint = ''https://ci'', job_name = ''j'', parameter = NotSet, wait = ''true''\<rparr>"

text \<open>
  The state after \<open>n\<close> polls of the build were each answered with a bad gateway that
  the \<^verbatim>\<open>catch\<close> block let pass: the failures are counted, and each is followed by a
  sleep and by the same poll again.
\<close>

definition retried :: "nat \<Rightarrow> string \<Rightarrow> world \<Rightarrow> world" where
  "retried n buildUrl w =
     w\<lparr>failureCount := failureCount w + n,
       effects := effects w @ concat (replicate n [Sleep sleepInterval, Get (requestUrl buildUrl)])\<rparr>"

section \<open>One poll\<close>

text \<open>
  What \<^verbatim>\<open>getJobStatus\<close> gives for each kind of reply, with the promise and the
  fall-through of the \<^verbatim>\<open>switch\<close> worked out: a 502 is rejected with the error of
  the threshold when the counter is already above it, and with a bad gateway
  otherwise, and is counted in both cases.
\<close>

lemma getJobStatus_NetworkError:
  "getJobStatus (NetworkError m) w =
     (Crashed (TypeError (''Cannot read properties of undefined (reading '' @ quote @ ''statusCode''
                    @ quote @ '')'')), clearTimeout w)"
  by (simp add: getJobStatus_def getJobStatus_callback_def)

lemma getJobStatus_Responded:
  "getJobStatus (Responded res) w =
     (if statusCode res = 200 then
        (case JSON_parse (body res) of Inl e \<Rightarrow> Crashed e | Inr d \<Rightarrow> Returned d, w)
      else if statusCode res = 502 then
        (Threw (if failureCount w > FAILURE_THRESHOLD
                then JenkinsAPIError ''Failure Threshold reached, exiting script.....''
                else BadGatewayError (''Wrong http response from host - '' @ decimal (statusCode res))),
         w\<lparr>failureCount := failureCount w + 1\<rparr>)
      else (Threw (JenkinsAPIError (''Unknown API error code received: '' @ decimal (statusCode res))), w))"
  by (simp add: getJobStatus_def getJobStatus_callback_def statusSwitch_def Let_def split: sum.splits)

lemmas poll_defs = queuePoll_def buildPoll_def catchBlock_def sleep_def emit_def clearTimeout_def
  getJobStatus_request_def getJobStatus_NetworkError getJobStatus_Responded Let_def

lemmas poll_splits = if_splits sum.splits option.splits prod.splits completion.splits

lemma decimal_502: "decimal 502 = ''502''"
  by code_simp

text \<open>The polls the claims are about, one reply at a time.\<close>

lemma buildPoll_bad_gateway:
  "statusCode res = 502 \<Longrightarrow>
   buildPoll (Responded res) w =
     (if failureCount w > FAILURE_THRESHOLD
      then (Some (Threw (Error
              ''Prod-to-env sync job failed,  Failure Threshold reached, exiting script.....'')),
            w\<lparr>failureCount := failureCount w + 1\<rparr>)
      else (None, sleep sleepInterval (w\<lparr>failureCount := failureCount w + 1\<rparr>)))"
  by (simp add: buildPoll_def getJobStatus_Responded catchBlock_def)

lemma queuePoll_bad_gateway:
  "statusCode res = 502 \<Longrightarrow>
   queuePoll j (Responded res) w =
     (Inl (Threw (if failureCount w > FAILURE_THRESHOLD
                  then JenkinsAPIError ''Failure Threshold reached, exiting script.....''
                  else BadGatewayError ''Wrong http response from host - 502'')),
      w\<lparr>failureCount := failureCount w + 1\<rparr>)"
  by (simp add: queuePoll_def getJobStatus_Responded decimal_502)

lemma buildPoll_success:
  "statusCode res = 200 \<Longrightarrow> body res = JsonDocument d \<Longrightarrow> result d = Some ''SUCCESS'' \<Longrightarrow>
   buildPoll (Responded res) w =
     (if successCount w \<ge> SUCCESS_THRESHOLD then (Some (Returned ()), w)
      else (None, sleep sleepInterval (w\<lparr>successCount := successCount w + 1\<rparr>)))"
  by (simp add: buildPoll_def getJobStatus_Responded)

lemma buildPoll_null:
  "statusCode res = 200 \<Longrightarrow> body res = JsonNull \<Longrightarrow>
   buildPoll (Responded res) w = (None, sleep sleepInterval w)"
  by (simp add: buildPoll_def getJobStatus_Responded)

lemma buildPoll_no_body:
  "statusCode res = 200 \<Longrightarrow> body res = NoBody \<Longrightarrow>
   buildPoll (Responded res) w
     = (Some (Crashed (SyntaxError ''Unexpected end of JSON input'')), w)"
  by (simp add: buildPoll_def getJobStatus_Responded)



section \<open>The request of a status poll\<close>




section \<open>Bad gateways\<close>

text \<open>
  In the polls of the build, bad gateways in a row are let pass as long as the counter,
  read before it is incremented, is not above the threshold: from a count of zero that
  is eleven of them. The next one ends the run.
\<close>

lemma polling_bad_gateways:
  "\<forall>res\<in>set rs. statusCode res = 502 \<Longrightarrow> failureCount w + length rs \<le> Suc FAILURE_THRESHOLD \<Longrightarrow>
   polling j q (Some u) w (map (\<lambda>res. Reply (Responded res)) rs @ evs)
     = polling j q (Some u) (retried (length rs) u w) evs"
proof (induction rs arbitrary: w)
  case Nil
  then show ?case by (simp add: retried_def)
next
  case (Cons r rs)
  let ?w = "getJobStatus_request u (sleep sleepInterval (w\<lparr>failureCount := failureCount w + 1\<rparr>))"
  from Cons.prems have s: "statusCode r = 502" and n: "\<not> failureCount w > FAILURE_THRESHOLD"
    by auto
  from Cons.prems have "\<forall>res\<in>set rs. statusCode res = 502"
    and "failureCount ?w + length rs \<le> Suc FAILURE_THRESHOLD"
    by (auto simp: getJobStatus_request_def sleep_def emit_def)
  from Cons.IH [OF this]
  have "polling j q (Some u) ?w (map (\<lambda>res. Reply (Responded res)) rs @ evs)
     = polling j q (Some u) (retried (length rs) u ?w) evs" .
  moreover have "retried (length rs) u ?w = retried (length (r # rs)) u w"
    by (simp add: retried_def getJobStatus_request_def sleep_def emit_def)
  ultimately show ?case
    using s n by (simp add: buildPoll_bad_gateway)
qed

text \<open>
  C1. What the program does with eleven replies 502 in a row to the polls of the
  build: it sleeps and polls again after each of them, and when the build then reports
  success the run ends without a failure. The twelfth 502 in a row is the first to end
  the run, with the message of the threshold.
\<close>

theorem eleven_bad_gateways_are_retried:
  "fst (main waiting
         ([triggered ''https://ci/queue/5/'', assigned ''https://ci/build/5/'']
          @ replicate 11 (http 502 NoBody) @ replicate 4 (building (Some ''SUCCESS'')))) = Finished
   \<and> failuresOf (effects (snd (main waiting
         ([triggered ''https://ci/queue/5/'', assigned ''https://ci/build/5/'']
          @ replicate 11 (http 502 NoBody) @ replicate 4 (building (Some ''SUCCESS'')))))) = []
   \<and> failureCount (snd (main waiting
         ([triggered ''https://ci/queue/5/'', assigned ''https://ci/build/5/'']
          @ replicate 11 (http 502 NoBody) @ replicate 4 (building (Some ''SUCCESS''))))) = 11
   \<and> fst (main waiting
         ([triggered ''https://ci/queue/5/'', assigned ''https://ci/build/5/'']
          @ replicate 12 (http 502 NoBody))) = Finished
   \<and> failuresOf (effects (snd (main waiting
         ([triggered ''https://ci/queue/5/'', assigned ''https://ci/build/5/'']
          @ replicate 12 (http 502 NoBody)))))
       = [Message ''Prod-to-env sync job failed,  Failure Threshold reached, exiting script.....'']"
  by code_simp

text \<open>
  C3. What the program does with a reply 502 to a poll of the queue item: the error
  leaves \<^verbatim>\<open>waitJenkinsJob\<close> at once, the run is reported as failed with the message of
  the bad gateway, and there is neither a sleep nor a second poll. The same reply to a
  poll of the build is followed by a sleep and by the same poll again.
\<close>

theorem bad_gateway_in_queue_phase_is_fatal:
  "main waiting [triggered ''https://ci/queue/5/'', http 502 NoBody, assigned ''https://ci/build/5/'']
     = (Finished,
        \<lparr>failureCount = 1, successCount = 0, jenkinsBuildUrl = None, timer = False,
         effects = [Post ''https://ci/job/j/buildWithParameters'' [],
                    Get ''https://ci/queue/5/api/json'',
                    SetFailed (Message ''Wrong http response from host - 502''),
                    ClearTimeout]\<rparr>)
   \<and> main waiting [triggered ''https://ci/queue/5/'', assigned ''https://ci/build/5/'', http 502 NoBody]
     = (StillRunning,
        \<lparr>failureCount = 1, successCount = 0, jenkinsBuildUrl = Some ''https://ci/build/5/'',
         timer = True,
         effects = [Post ''https://ci/job/j/buildWithParameters'' [],
                    Get ''https://ci/queue/5/api/json'',
                    SetOutput ''jenkinsBuildUrl'' ''https://ci/build/5/'',
                    Get ''https://ci/build/5/api/json'',
                    Sleep 10,
                    Get ''https://ci/build/5/api/json'']\<rparr>)"
  by code_simp

section \<open>The count of successes\<close>

text \<open>
  C2. What the program does with polls of the build that report success, starting
  with a count of zero: after two of them and a poll that reports no result the run
  goes on; after three of them it also goes on, with a sleep and a fourth poll; it is
  the fourth that ends the run with success.
\<close>

theorem fourth_success_ends_the_run:
  "main waiting
     [triggered ''https://ci/queue/5/'', assigned ''https://ci/build/5/'',
      building (Some ''SUCCESS''), building (Some ''SUCCESS''), building None]
     = (StillRunning,
        \<lparr>failureCount = 0, successCount = 2, jenkinsBuildUrl = Some ''https://ci/build/5/'',
         timer = True,
         effects = [Post ''https://ci/job/j/buildWithParameters'' [],
                    Get ''https://ci/queue/5/api/json'',
                    SetOutput ''jenkinsBuildUrl'' ''https://ci/build/5/'',
                    Get ''https://ci/build/5/api/json'', Sleep 10,
                    Get ''https://ci/build/5/api/json'', Sleep 10,
                    Get ''https://ci/build/5/api/json'', Sleep 10,
                    Get ''https://ci/build/5/api/json'']\<rparr>)
   \<and> main waiting
     [triggered ''https://ci/queue/5/'', assigned ''https://ci/build/5/'',
      building (Some ''SUCCESS''), building (Some ''SUCCESS''), building (Some ''SUCCESS'')]
     = (StillRunning,
        \<lparr>failureCount = 0, successCount = 3, jenkinsBuildUrl = Some ''https://ci/build/5/'',
         timer = True,
         effects = [Post ''https://ci/job/j/buildWithParameters'' [],
                    Get ''https://ci/queue/5/api/json'',
                    SetOutput ''jenkinsBuildUrl'' ''https://ci/build/5/'',
                    Get ''https://ci/build/5/api/json'', Sleep 10,
                    Get ''https://ci/build/5/api/json'', Sleep 10,
                    Get ''https://ci/build/5/api/json'', Sleep 10,
                    Get ''https://ci/build/5/api/json'']\<rparr>)
   \<and> main waiting
     [triggered ''https://ci/queue/5/'', assigned ''https://ci/build/5/'',
      building (Some ''SUCCESS''), building (Some ''SUCCESS''), building (Some ''SUCCESS''),
      building (Some ''SUCCESS'')]
     = (Finished,
        \<lparr>failureCount = 0, successCount = 3, jenkinsBuildUrl = Some ''https://ci/build/5/'',
         timer = False,
         effects = [Post ''https://ci/job/j/buildWithParameters'' [],
                    Get ''https://ci/queue/5/api/json'',
                    SetOutput ''jenkinsBuildUrl'' ''https://ci/build/5/'',
                    Get ''https://ci/build/5/api/json'', Sleep 10,
                    Get ''https://ci/build/5/api/json'', Sleep 10,
                    Get ''https://ci/build/5/api/json'', Sleep 10,
                    Get ''https://ci/build/5/api/json'',
                    ClearTimeout]\<rparr>)"
  by code_simp

text \<open>The counter of successes along a run: it never decreases.\<close>

lemma buildPoll_successCount:
  "buildPoll r w = (x, w') \<Longrightarrow>
     successCount w \<le> successCount w' \<and>
     successCount w' \<le> successCount w + (if successRead (Reply r) then 1 else 0) \<and>
     (x = Some (Returned ()) \<longrightarrow> SUCCESS_THRESHOLD \<le> successCount w' \<and> successRead (Reply r))"
  by (cases r) (auto simp: poll_defs split: poll_splits body.splits)

lemma queuePoll_successCount:
  "queuePoll j r w = (x, w') \<Longrightarrow> successCount w' = successCount w \<and> x \<noteq> Inl (Returned ())"
  by (cases r) (auto simp: poll_defs split: poll_splits)

lemma timerCallback_successCount: "successCount (timerCallback w) = successCount w"
  by (simp add: timerCallback_def emit_def)

lemma request_successCount: "successCount (getJobStatus_request u w) = successCount w"
  by (simp add: getJobStatus_request_def emit_def)

lemma polling_successCount:
  "polling j q b w evs = (c, w') \<Longrightarrow>
     successCount w \<le> successCount w' \<and>
     successCount w' \<le> successCount w + length (filter successRead evs) \<and>
     (c = Returned () \<longrightarrow> SUCCESS_THRESHOLD \<le> successCount w')"
proof (induction evs arbitrary: b w)
  case Nil
  then show ?case by auto
next
  case (Cons e evs)
  show ?case
  proof (cases e)
    case TimerFires
    with Cons.IH [of b "timerCallback w"] Cons.prems timerCallback_successCount [of w]
    show ?thesis by simp
  next
    case (Reply r)
    show ?thesis
    proof (cases b)
      case None
      obtain x v where p: "queuePoll j r w = (x, v)" by (cases "queuePoll j r w")
      note s = queuePoll_successCount [OF p]
      show ?thesis
      proof (cases x)
        case (Inl d)
        with p s Reply None Cons.prems show ?thesis by auto
      next
        case (Inr b')
        with p s Reply None Cons.prems
          Cons.IH [of None "getJobStatus_request q v"]
          Cons.IH [of b' "getJobStatus_request (the b') v"]
          request_successCount [of q v] request_successCount [of "the b'" v]
        show ?thesis by (cases b') auto
      qed
    next
      case (Some u)
      obtain x v where p: "buildPoll r w = (x, v)" by (cases "buildPoll r w")
      note s = buildPoll_successCount [OF p]
      show ?thesis
      proof (cases x)
        case None
        with p s Reply Some Cons.prems Cons.IH [of "Some u" "getJobStatus_request u v"]
          request_successCount [of u v]
        show ?thesis by (auto split: if_splits)
      next
        case (Some d)
        with p s Reply \<open>b = Some u\<close> Cons.prems show ?thesis by (auto split: if_splits)
      qed
    qed
  qed
qed

text \<open>
  Two runs from states with the same variables end the same way, and a poll of the
  build that reports no result changes no variable.
\<close>

lemma buildPoll_sameState:
  "sameState w1 w2 \<Longrightarrow>
     fst (buildPoll r w1) = fst (buildPoll r w2) \<and> sameState (snd (buildPoll r w1)) (snd (buildPoll r w2))"
  by (cases r) (auto simp: poll_defs sameState_def split: poll_splits)

lemma buildPoll_running:
  "runningRead (Reply r) \<Longrightarrow> fst (buildPoll r w) = None \<and> sameState (snd (buildPoll r w)) w"
  by (cases r) (auto simp: poll_defs sameState_def split: poll_splits body.splits)

lemma sameState_trans: "sameState a b \<Longrightarrow> sameState b c \<Longrightarrow> sameState a c"
  by (simp add: sameState_def)

lemma sameState_timerCallback: "sameState w1 w2 \<Longrightarrow> sameState (timerCallback w1) (timerCallback w2)"
  by (simp add: sameState_def timerCallback_def emit_def)

lemma sameState_request: "sameState w1 w2 \<Longrightarrow> sameState (getJobStatus_request u w1) w2"
  by (simp add: sameState_def getJobStatus_request_def emit_def)

lemma sameState_request2: "sameState w1 w2 \<Longrightarrow> sameState (getJobStatus_request u w1) (getJobStatus_request u w2)"
  by (simp add: sameState_def getJobStatus_request_def emit_def)

lemma polling_running:
  "sameState w1 w2 \<Longrightarrow>
     fst (polling j q (Some u) w1 evs) = fst (polling j q (Some u) w2 (filter (\<lambda>e. \<not> runningRead e) evs)) \<and>
     sameState (snd (polling j q (Some u) w1 evs))
               (snd (polling j q (Some u) w2 (filter (\<lambda>e. \<not> runningRead e) evs)))"
proof (induction evs arbitrary: w1 w2)
  case Nil
  then show ?case by simp
next
  case (Cons e evs)
  show ?case
  proof (cases e)
    case TimerFires
    with Cons.IH [OF sameState_timerCallback [OF Cons.prems]] show ?thesis by simp
  next
    case (Reply r)
    show ?thesis
    proof (cases "runningRead (Reply r)")
      case True
      obtain x v where p: "buildPoll r w1 = (x, v)" by (cases "buildPoll r w1")
      with buildPoll_running [OF True, of w1] have x: "x = None" and s: "sameState v w1" by simp_all
      from sameState_request [OF sameState_trans [OF s Cons.prems], of u]
      have "sameState (getJobStatus_request u v) w2" .
      from Cons.IH [OF this] p x Reply True show ?thesis by simp
    next
      case False
      from buildPoll_sameState [OF Cons.prems, of r]
      have f: "fst (buildPoll r w1) = fst (buildPoll r w2)"
        and a: "sameState (snd (buildPoll r w1)) (snd (buildPoll r w2))" by simp_all
      show ?thesis
      proof (cases "fst (buildPoll r w1)")
        case None
        with f a Reply False Cons.IH [OF sameState_request2 [OF a]] show ?thesis
          by (cases "buildPoll r w1"; cases "buildPoll r w2") simp
      next
        case (Some c)
        with f a Reply False show ?thesis
          by (cases "buildPoll r w1"; cases "buildPoll r w2") simp
      qed
    qed
  qed
qed

text \<open>
  C5. The loop of \<^verbatim>\<open>waitJenkinsJob\<close> ends with success only when the counter of
  successes has reached the threshold, and the counter is at most its value at the start
  plus the number of polls that reported success. The counter never decreases, and the
  polls of the build that report no result leave no trace in it: with them or without
  them the run ends the same way with the same count, so successes that such polls
  separate add up.
\<close>

theorem success_needs_the_count_at_threshold:
  "(polling j q b w evs = (Returned (), w') \<longrightarrow>
      SUCCESS_THRESHOLD \<le> successCount w' \<and>
      successCount w' \<le> successCount w + length (filter successRead evs))
   \<and> successCount w \<le> successCount (snd (polling j q b w evs))
   \<and> fst (polling j q (Some u) w (filter (\<lambda>e. \<not> runningRead e) evs))
       = fst (polling j q (Some u) w evs)
   \<and> successCount (snd (polling j q (Some u) w (filter (\<lambda>e. \<not> runningRead e) evs)))
       = successCount (snd (polling j q (Some u) w evs))"
proof (intro conjI impI)
  assume "polling j q b w evs = (Returned (), w')"
  from polling_successCount [OF this]
  show "SUCCESS_THRESHOLD \<le> successCount w'"
    and "successCount w' \<le> successCount w + length (filter successRead evs)"
    by simp_all
next
  obtain c v where p: "polling j q b w evs = (c, v)" by (cases "polling j q b w evs")
  from polling_successCount [OF this] p
  show "successCount w \<le> successCount (snd (polling j q b w evs))" by simp
next
  have s: "sameState w w" by (simp add: sameState_def)
  from polling_running [OF s, of j q u evs]
  show "fst (polling j q (Some u) w (filter (\<lambda>e. \<not> runningRead e) evs))
       = fst (polling j q (Some u) w evs)"
    and "successCount (snd (polling j q (Some u) w (filter (\<lambda>e. \<not> runningRead e) evs)))
       = successCount (snd (polling j q (Some u) w evs))"
    by (simp_all add: sameState_def)
qed

theorem success_needs_the_count_at_threshold_witness:
  "polling ''j'' ''https://ci/queue/5/'' (Some ''https://ci/build/5/'') initial
     [building (Some ''SUCCESS''), building None, building (Some ''SUCCESS''), building None,
      building (Some ''SUCCESS''), building (Some ''SUCCESS'')]
     = (Returned (),
        \<lparr>failureCount = 0, successCount = 3, jenkinsBuildUrl = None, timer = True,
         effects = [Sleep 10, Get ''https://ci/build/5/api/json'',
                    Sleep 10, Get ''https://ci/build/5/api/json'',
                    Sleep 10, Get ''https://ci/build/5/api/json'',
                    Sleep 10, Get ''https://ci/build/5/api/json'',
                    Sleep 10, Get ''https://ci/build/5/api/json'']\<rparr>)
   \<and> SUCCESS_THRESHOLD \<le> 3
   \<and> 3 \<le> successCount initial + length (filter successRead
     [building (Some ''SUCCESS''), building None, building (Some ''SUCCESS''), building None,
      building (Some ''SUCCESS''), building (Some ''SUCCESS'')])
   \<and> fst (polling ''j'' ''https://ci/queue/5/'' (Some ''https://ci/build/5/'') initial
       (filter (\<lambda>e. \<not> runningRead e)
          [building (Some ''SUCCESS''), building None, building (Some ''SUCCESS''), building None,
           building (Some ''SUCCESS''), building (Some ''SUCCESS'')])) = Returned ()"
proof -
  have h: "polling ''j'' ''https://ci/queue/5/'' (Some ''https://ci/build/5/'') initial
     [building (Some ''SUCCESS''), building None, building (Some ''SUCCESS''), building None,
      building (Some ''SUCCESS''), building (Some ''SUCCESS'')]
     = (Returned (),
        \<lparr>failureCount = 0, successCount = 3, jenkinsBuildUrl = None, timer = True,
         effects = [Sleep 10, Get ''https://ci/build/5/api/json'',
                    Sleep 10, Get ''https://ci/build/5/api/json'',
                    Sleep 10, Get ''https://ci/build/5/api/json'',
                    Sleep 10, Get ''https://ci/build/5/api/json'',
                    Sleep 10, Get ''https://ci/build/5/api/json'']\<rparr>)"
    by code_simp
  from h success_needs_the_count_at_threshold
    [of "''j''" "''https://ci/queue/5/''" "Some ''https://ci/build/5/''" initial
        "[building (Some ''SUCCESS''), building None, building (Some ''SUCCESS''), building None,
          building (Some ''SUCCESS''), building (Some ''SUCCESS'')]"
        "\<lparr>failureCount = 0, successCount = 3, jenkinsBuildUrl = None, timer = True,
         effects = [Sleep 10, Get ''https://ci/build/5/api/json'',
                    Sleep 10, Get ''https://ci/build/5/api/json'',
                    Sleep 10, Get ''https://ci/build/5/api/json'',
                    Sleep 10, Get ''https://ci/build/5/api/json'',
                    Sleep 10, Get ''https://ci/build/5/api/json'']\<rparr>"
        "''https://ci/build/5/''"]
  show ?thesis by simp
qed

text \<open>
  Against the claim as it was stated: four polls that report success, each separated
  from the next by a poll that reports no result, end the run with success.
\<close>

theorem interrupted_successes_counterexample:
  "main waiting
     [triggered ''https://ci/queue/5/'', assigned ''https://ci/build/5/'',
      building (Some ''SUCCESS''), building None,
      building (Some ''SUCCESS''), building None,
      building (Some ''SUCCESS''), building None,
      building (Some ''SUCCESS'')]
     = (Finished,
        \<lparr>failureCount = 0, successCount = 3, jenkinsBuildUrl = Some ''https://ci/build/5/'',
         timer = False,
         effects = [Post ''https://ci/job/j/buildWithParameters'' [],
                    Get ''https://ci/queue/5/api/json'',
                    SetOutput ''jenkinsBuildUrl'' ''https://ci/build/5/'',
                    Get ''https://ci/build/5/api/json'', Sleep 10,
                    Get ''https://ci/build/5/api/json'', Sleep 10,
                    Get ''https://ci/build/5/api/json'', Sleep 10,
                    Get ''https://ci/build/5/api/json'', Sleep 10,
                    Get ''https://ci/build/5/api/json'', Sleep 10,
                    Get ''https://ci/build/5/api/json'', Sleep 10,
                    Get ''https://ci/build/5/api/json'',
                    ClearTimeout]\<rparr>)"
  by code_simp

section \<open>The published build URL\<close>












section \<open>The deadline\<close>

text \<open>
  The callback of the timer changes neither a variable of the module nor the course
  of the run: two runs that differ in the firing of the timer only make the same calls,
  apart from the mark of the timeout.
\<close>

lemma agree_refl: "agree w w"
  by (simp add: agree_def sameState_def)

lemma buildPoll_agree:
  "agree w1 w2 \<Longrightarrow> fst (buildPoll r w1) = fst (buildPoll r w2) \<and> agree (snd (buildPoll r w1)) (snd (buildPoll r w2))"
  by (cases r) (auto simp: poll_defs agree_def sameState_def untimed_def split: poll_splits)

lemma queuePoll_agree:
  "agree w1 w2 \<Longrightarrow> fst (queuePoll j r w1) = fst (queuePoll j r w2) \<and> agree (snd (queuePoll j r w1)) (snd (queuePoll j r w2))"
  by (cases r) (auto simp: poll_defs agree_def sameState_def untimed_def split: poll_splits)

lemma timerCallback_agree: "agree w1 w2 \<Longrightarrow> agree (timerCallback w1) w2"
  by (auto simp: agree_def sameState_def untimed_def timerCallback_def emit_def)

lemma request_agree: "agree w1 w2 \<Longrightarrow> agree (getJobStatus_request u w1) (getJobStatus_request u w2)"
  by (auto simp: agree_def sameState_def untimed_def getJobStatus_request_def emit_def)

lemma polling_agree:
  "agree w1 w2 \<Longrightarrow>
     fst (polling j q b w1 evs) = fst (polling j q b w2 (filter (\<lambda>e. e \<noteq> TimerFires) evs)) \<and>
     agree (snd (polling j q b w1 evs)) (snd (polling j q b w2 (filter (\<lambda>e. e \<noteq> TimerFires) evs)))"
proof (induction evs arbitrary: b w1 w2)
  case Nil
  then show ?case by simp
next
  case (Cons e evs)
  show ?case
  proof (cases e)
    case TimerFires
    with Cons.IH [OF timerCallback_agree [OF Cons.prems]] show ?thesis by simp
  next
    case (Reply r)
    show ?thesis
    proof (cases b)
      case None
      from queuePoll_agree [OF Cons.prems, of j r]
      have f: "fst (queuePoll j r w1) = fst (queuePoll j r w2)"
        and a: "agree (snd (queuePoll j r w1)) (snd (queuePoll j r w2))" by simp_all
      show ?thesis
      proof (cases "fst (queuePoll j r w1)")
        case (Inl c)
        with f a Reply None show ?thesis
          by (cases "queuePoll j r w1"; cases "queuePoll j r w2") simp
      next
        case (Inr b')
        with f a Reply None Cons.IH [OF request_agree [OF a]] show ?thesis
          by (cases "queuePoll j r w1"; cases "queuePoll j r w2"; cases b') simp_all
      qed
    next
      case (Some u)
      from buildPoll_agree [OF Cons.prems, of r]
      have f: "fst (buildPoll r w1) = fst (buildPoll r w2)"
        and a: "agree (snd (buildPoll r w1)) (snd (buildPoll r w2))" by simp_all
      show ?thesis
      proof (cases "fst (buildPoll r w1)")
        case None
        with f a Reply Some Cons.IH [OF request_agree [OF a]] show ?thesis
          by (cases "buildPoll r w1"; cases "buildPoll r w2") simp
      next
        case (Some c)
        with f a Reply \<open>b = Some u\<close> show ?thesis
          by (cases "buildPoll r w1"; cases "buildPoll r w2") simp
      qed
    qed
  qed
qed

lemma awaitReply_agree:
  "agree w1 w2 \<Longrightarrow>
     (case awaitReply w1 evs of
        (None, w1') \<Rightarrow> (\<exists>w2'. awaitReply w2 (filter (\<lambda>e. e \<noteq> TimerFires) evs) = (None, w2') \<and> agree w1' w2')
      | (Some (r, rest), w1') \<Rightarrow>
          (\<exists>w2'. awaitReply w2 (filter (\<lambda>e. e \<noteq> TimerFires) evs)
                   = (Some (r, filter (\<lambda>e. e \<noteq> TimerFires) rest), w2') \<and> agree w1' w2'))"
proof (induction evs arbitrary: w1)
  case Nil
  then show ?case by simp
next
  case (Cons e evs)
  show ?case
  proof (cases e)
    case TimerFires
    with Cons.IH [OF timerCallback_agree [OF Cons.prems]] show ?thesis
      by (cases "awaitReply (timerCallback w1) evs") (simp split: option.splits prod.splits)
  next
    case (Reply r)
    with Cons.prems show ?thesis by simp
  qed
qed

lemma triggerJenkinsJob_agree:
  "agree w1 w2 \<Longrightarrow>
     fst (triggerJenkinsJob r w1) = fst (triggerJenkinsJob r w2) \<and>
     agree (snd (triggerJenkinsJob r w1)) (snd (triggerJenkinsJob r w2))"
  by (cases r)
     (auto simp: triggerJenkinsJob_def triggerJenkinsJob_callback_def agree_def sameState_def
        untimed_def clearTimeout_def emit_def split: option.splits)

lemma waitJenkinsJob_agree:
  "agree w1 w2 \<Longrightarrow>
     fst (waitJenkinsJob j q w1 evs) = fst (waitJenkinsJob j q w2 (filter (\<lambda>e. e \<noteq> TimerFires) evs)) \<and>
     agree (snd (waitJenkinsJob j q w1 evs))
           (snd (waitJenkinsJob j q w2 (filter (\<lambda>e. e \<noteq> TimerFires) evs)))"
  unfolding waitJenkinsJob_def by (rule polling_agree [OF request_agree])

lemma afterTrigger_agree:
  assumes "agree w1 w2"
  shows "fst (afterTrigger inp r w1 evs) = fst (afterTrigger inp r w2 (filter (\<lambda>e. e \<noteq> TimerFires) evs)) \<and>
     agree (snd (afterTrigger inp r w1 evs))
           (snd (afterTrigger inp r w2 (filter (\<lambda>e. e \<noteq> TimerFires) evs)))"
proof -
  from triggerJenkinsJob_agree [OF assms, of r]
  have f: "fst (triggerJenkinsJob r w1) = fst (triggerJenkinsJob r w2)"
    and a: "agree (snd (triggerJenkinsJob r w1)) (snd (triggerJenkinsJob r w2))" by simp_all
  show ?thesis
  proof (cases "triggerJenkinsJob r w1")
    case (Pair c w1')
    obtain w2' where p2: "triggerJenkinsJob r w2 = (c, w2')"
      using f Pair by (cases "triggerJenkinsJob r w2") simp
    from a Pair p2 have a': "agree w1' w2'" by simp
    show ?thesis
      using Pair p2 a' waitJenkinsJob_agree [OF a', of "job_name inp" _ evs]
      by (cases c) (simp_all add: afterTrigger_def)
  qed
qed

lemma finish_agree:
  "agree w1 w2 \<Longrightarrow> fst (finish (c, w1)) = fst (finish (c, w2)) \<and> agree (snd (finish (c, w1))) (snd (finish (c, w2)))"
  by (cases c) (auto simp: agree_def sameState_def untimed_def clearTimeout_def emit_def split: option.splits)

lemma tryBlock_agree:
  assumes "agree w1 w2"
  shows "fst (tryBlock inp w1 evs) = fst (tryBlock inp w2 (filter (\<lambda>e. e \<noteq> TimerFires) evs)) \<and>
     agree (snd (tryBlock inp w1 evs)) (snd (tryBlock inp w2 (filter (\<lambda>e. e \<noteq> TimerFires) evs)))"
proof (cases "parseParameter (parameter inp)")
  case (Inl e)
  with assms show ?thesis by (simp add: tryBlock_def)
next
  case (Inr params)
  define v1 where "v1 = triggerJenkinsJob_request (endpoint inp) (job_name inp) params w1"
  define v2 where "v2 = triggerJenkinsJob_request (endpoint inp) (job_name inp) params w2"
  have v: "agree v1 v2"
    using assms
    by (auto simp: v1_def v2_def agree_def sameState_def untimed_def triggerJenkinsJob_request_def
          emit_def)
  show ?thesis
  proof (cases "awaitReply v1 evs")
    case (Pair x v1')
    show ?thesis
    proof (cases x)
      case None
      with Pair Inr awaitReply_agree [OF v, of evs] show ?thesis
        by (auto simp: tryBlock_def v1_def v2_def)
    next
      case (Some p)
      obtain r rest where p: "p = (r, rest)" by (cases p)
      from Pair Some p awaitReply_agree [OF v, of evs]
      obtain v2' where e2: "awaitReply v2 (filter (\<lambda>e. e \<noteq> TimerFires) evs)
                   = (Some (r, filter (\<lambda>e. e \<noteq> TimerFires) rest), v2')" and a: "agree v1' v2'"
        by auto
      from afterTrigger_agree [OF a, of inp r rest] Pair Some p e2 Inr show ?thesis
        by (simp add: tryBlock_def v1_def v2_def)
    qed
  qed
qed

lemma main_from_agree:
  assumes "agree w1 w2"
  shows "fst (main_from w1 inp evs) = fst (main_from w2 inp (filter (\<lambda>e. e \<noteq> TimerFires) evs)) \<and>
     agree (snd (main_from w1 inp evs)) (snd (main_from w2 inp (filter (\<lambda>e. e \<noteq> TimerFires) evs)))"
proof -
  from tryBlock_agree [OF assms, of inp evs]
  have f: "fst (tryBlock inp w1 evs) = fst (tryBlock inp w2 (filter (\<lambda>e. e \<noteq> TimerFires) evs))"
    and a: "agree (snd (tryBlock inp w1 evs)) (snd (tryBlock inp w2 (filter (\<lambda>e. e \<noteq> TimerFires) evs)))"
    by simp_all
  obtain c x1 where c1: "tryBlock inp w1 evs = (c, x1)" by (cases "tryBlock inp w1 evs")
  with f obtain x2 where c2: "tryBlock inp w2 (filter (\<lambda>e. e \<noteq> TimerFires) evs) = (c, x2)"
    by (cases "tryBlock inp w2 (filter (\<lambda>e. e \<noteq> TimerFires) evs)") simp
  from a c1 c2 have "agree x1 x2" by simp
  from finish_agree [OF this, of c] c1 c2 show ?thesis by (simp add: main_from_def)
qed

text \<open>The calls of a run are never taken back.\<close>

lemma buildPoll_grows: "set (effects w) \<subseteq> set (effects (snd (buildPoll r w)))"
  by (cases r) (auto simp: poll_defs split: poll_splits)

lemma queuePoll_grows: "set (effects w) \<subseteq> set (effects (snd (queuePoll j r w)))"
  by (cases r) (auto simp: poll_defs split: poll_splits)

lemma timerCallback_grows: "set (effects w) \<subseteq> set (effects (timerCallback w))"
  by (auto simp: timerCallback_def emit_def)

lemma request_grows: "set (effects w) \<subseteq> set (effects (getJobStatus_request u w))"
  by (auto simp: getJobStatus_request_def emit_def)

lemma polling_grows: "set (effects w) \<subseteq> set (effects (snd (polling j q b w evs)))"
proof (induction evs arbitrary: b w)
  case Nil
  then show ?case by simp
next
  case (Cons e evs)
  show ?case
  proof (cases e)
    case TimerFires
    with Cons.IH [of "timerCallback w" b] timerCallback_grows [of w] show ?thesis by auto
  next
    case (Reply r)
    show ?thesis
    proof (cases b)
      case None
      obtain x w' where p: "queuePoll j r w = (x, w')" by (cases "queuePoll j r w")
      with queuePoll_grows [of w j r] have g: "set (effects w) \<subseteq> set (effects w')" by simp
      show ?thesis
      proof (cases x)
        case (Inl c)
        with p g Reply None show ?thesis by simp
      next
        case (Inr b')
        with p g Reply None Cons.IH [of "getJobStatus_request q w'" None]
          Cons.IH [of "getJobStatus_request (the b') w'" b']
          request_grows [of w' q] request_grows [of w' "the b'"]
        show ?thesis by (cases b') auto
      qed
    next
      case (Some u)
      obtain x w' where p: "buildPoll r w = (x, w')" by (cases "buildPoll r w")
      with buildPoll_grows [of w r] have g: "set (effects w) \<subseteq> set (effects w')" by simp
      show ?thesis
      proof (cases x)
        case None
        with p g Reply Some Cons.IH [of "getJobStatus_request u w'" "Some u"] request_grows [of w' u]
        show ?thesis by auto
      next
        case (Some c)
        with p g Reply \<open>b = Some u\<close> show ?thesis by simp
      qed
    qed
  qed
qed

lemma awaitReply_grows: "set (effects w) \<subseteq> set (effects (snd (awaitReply w evs)))"
proof (induction evs arbitrary: w)
  case Nil
  then show ?case by simp
next
  case (Cons e evs)
  with timerCallback_grows [of w] Cons.IH [of "timerCallback w"] show ?case by (cases e) auto
qed

lemma triggerJenkinsJob_grows: "set (effects w) \<subseteq> set (effects (snd (triggerJenkinsJob r w)))"
  by (cases r)
     (auto simp: triggerJenkinsJob_def triggerJenkinsJob_callback_def clearTimeout_def emit_def
        split: option.splits)

lemma waitJenkinsJob_grows: "set (effects w) \<subseteq> set (effects (snd (waitJenkinsJob j q w evs)))"
  unfolding waitJenkinsJob_def
  using polling_grows [of "getJobStatus_request q w" j q None evs] request_grows [of w q] by auto

lemma afterTrigger_grows: "set (effects w) \<subseteq> set (effects (snd (afterTrigger inp r w evs)))"
proof (cases "triggerJenkinsJob r w")
  case (Pair c w')
  with triggerJenkinsJob_grows [of w r] have g: "set (effects w) \<subseteq> set (effects w')" by simp
  with Pair waitJenkinsJob_grows [of w' "job_name inp" _ evs] show ?thesis
    by (cases c) (auto simp: afterTrigger_def)
qed

lemma finish_grows: "set (effects w) \<subseteq> set (effects (snd (finish (c, w))))"
  by (cases c) (auto simp: clearTimeout_def emit_def split: option.splits)

text \<open>While the run is suspended and the timer has not fired, the timer is pending.\<close>

lemma buildPoll_timer: "buildPoll r w = (None, w') \<Longrightarrow> timer w' = timer w"
  by (cases r) (auto simp: poll_defs split: poll_splits)

lemma queuePoll_timer: "queuePoll j r w = (Inr b, w') \<Longrightarrow> timer w' = timer w"
  by (cases r) (auto simp: poll_defs split: poll_splits)

lemma buildPoll_not_Suspended: "fst (buildPoll r w) \<noteq> Some Suspended"
  by (cases r) (auto simp: poll_defs split: poll_splits)

lemma queuePoll_not_Suspended: "fst (queuePoll j r w) \<noteq> Inl Suspended"
  by (cases r) (auto simp: poll_defs split: poll_splits)

lemma triggerJenkinsJob_Returned: "triggerJenkinsJob r w = (Returned l, w') \<Longrightarrow> w' = w"
  by (cases r)
     (auto simp: triggerJenkinsJob_def triggerJenkinsJob_callback_def split: option.splits if_splits)

lemma triggerJenkinsJob_not_Suspended: "fst (triggerJenkinsJob r w) \<noteq> Suspended"
  by (cases r)
     (auto simp: triggerJenkinsJob_def triggerJenkinsJob_callback_def split: option.splits if_splits)

lemma timeout_mark:
  "timer w \<Longrightarrow> SetFailed (Message ''Job Timeout'') \<in> set (effects (timerCallback w))"
  by (simp add: timerCallback_def emit_def)

lemma polling_timeout:
  "fst (polling j q b w pre) = Suspended \<Longrightarrow> TimerFires \<notin> set pre \<Longrightarrow> timer w \<Longrightarrow>
   SetFailed (Message ''Job Timeout'') \<in> set (effects (snd (polling j q b w (pre @ TimerFires # post))))"
proof (induction pre arbitrary: b w)
  case Nil
  with timeout_mark [of w] polling_grows [of "timerCallback w" j q b post] show ?case by auto
next
  case (Cons e pre)
  then obtain r where e: "e = Reply r" by (cases e) auto
  show ?case
  proof (cases b)
    case None
    obtain x w' where p: "queuePoll j r w = (x, w')" by (cases "queuePoll j r w")
    show ?thesis
    proof (cases x)
      case (Inl c)
      with p e None Cons.prems queuePoll_not_Suspended [of j r w] show ?thesis by simp
    next
      case (Inr b')
      with p queuePoll_timer [of j r w b' w'] Cons.prems have t: "timer w'" by simp
      show ?thesis
      proof (cases b')
        case None
        with Inr p e \<open>b = None\<close> Cons.prems t Cons.IH [of None "getJobStatus_request q w'"]
        show ?thesis by (simp add: getJobStatus_request_def emit_def)
      next
        case (Some u)
        with Inr p e \<open>b = None\<close> Cons.prems t Cons.IH [of "Some u" "getJobStatus_request u w'"]
        show ?thesis by (simp add: getJobStatus_request_def emit_def)
      qed
    qed
  next
    case (Some u)
    obtain x w' where p: "buildPoll r w = (x, w')" by (cases "buildPoll r w")
    show ?thesis
    proof (cases x)
      case None
      with p buildPoll_timer [of r w w'] Cons.prems have t: "timer w'" by simp
      with None p e Some Cons.prems Cons.IH [of "Some u" "getJobStatus_request u w'"]
      show ?thesis by (simp add: getJobStatus_request_def emit_def)
    next
      case (Some c)
      with p e \<open>b = Some u\<close> Cons.prems buildPoll_not_Suspended [of r w] show ?thesis by simp
    qed
  qed
qed

lemma afterTrigger_timeout:
  assumes "fst (afterTrigger inp r w pre) = Suspended" "TimerFires \<notin> set pre" "timer w"
  shows "SetFailed (Message ''Job Timeout'')
           \<in> set (effects (snd (afterTrigger inp r w (pre @ TimerFires # post))))"
proof (cases "triggerJenkinsJob r w")
  case (Pair c w')
  show ?thesis
  proof (cases c)
    case (Returned l)
    with Pair triggerJenkinsJob_Returned [of r w l w'] have w': "w' = w" by simp
    from assms(1) Pair Returned w' have wt: "wait inp = ''true''"
      and s: "fst (polling (job_name inp) l None (getJobStatus_request l w) pre) = Suspended"
      by (auto simp: afterTrigger_def waitJenkinsJob_def split: if_splits)
    from assms(3) have "timer (getJobStatus_request l w)"
      by (simp add: getJobStatus_request_def emit_def)
    from polling_timeout [OF s assms(2) this, of post] Pair Returned w' wt show ?thesis
      by (simp add: afterTrigger_def waitJenkinsJob_def)
  next
    case (Threw e)
    with Pair assms(1) show ?thesis by (simp add: afterTrigger_def)
  next
    case (Crashed e)
    with Pair assms(1) show ?thesis by (simp add: afterTrigger_def)
  next
    case Suspended
    with Pair triggerJenkinsJob_not_Suspended [of r w] show ?thesis by simp
  qed
qed

lemma tryBlock_timeout:
  assumes "fst (tryBlock inp w pre) = Suspended" "TimerFires \<notin> set pre" "timer w"
  shows "SetFailed (Message ''Job Timeout'')
           \<in> set (effects (snd (tryBlock inp w (pre @ TimerFires # post))))"
proof (cases "parseParameter (parameter inp)")
  case (Inl e)
  with assms(1) show ?thesis by (simp add: tryBlock_def)
next
  case (Inr params)
  define v where "v = triggerJenkinsJob_request (endpoint inp) (job_name inp) params w"
  from assms(3) have tv: "timer v" by (simp add: v_def triggerJenkinsJob_request_def emit_def)
  show ?thesis
  proof (cases pre)
    case Nil
    obtain x v' where a: "awaitReply (timerCallback v) post = (x, v')"
      by (cases "awaitReply (timerCallback v) post")
    from timeout_mark [OF tv] awaitReply_grows [of "timerCallback v" post] a
    have m: "SetFailed (Message ''Job Timeout'') \<in> set (effects v')" by auto
    show ?thesis
    proof (cases x)
      case None
      with Nil Inr a m show ?thesis by (simp add: tryBlock_def v_def)
    next
      case (Some p)
      obtain r rest where p: "p = (r, rest)" by (cases p)
      with Some Nil Inr a m afterTrigger_grows [of v' inp r rest] show ?thesis
        by (auto simp: tryBlock_def v_def)
    qed
  next
    case (Cons e pre')
    with assms(2) obtain r where e: "e = Reply r" by (cases e) auto
    from assms(1) Cons e Inr have s: "fst (afterTrigger inp r v pre') = Suspended"
      by (simp add: tryBlock_def v_def)
    from assms(2) Cons have n: "TimerFires \<notin> set pre'" by simp
    from afterTrigger_timeout [OF s n tv, of post] Cons e Inr show ?thesis
      by (simp add: tryBlock_def v_def)
  qed
qed

lemma main_timeout:
  assumes "fst (main inp pre) = StillRunning" "TimerFires \<notin> set pre"
  shows "SetFailed (Message ''Job Timeout'') \<in> set (effects (snd (main inp (pre @ TimerFires # post))))"
proof -
  obtain c v where t: "tryBlock inp initial pre = (c, v)" by (cases "tryBlock inp initial pre")
  with assms(1) have "c = Suspended"
    by (cases c) (auto simp: main_def main_from_def split: option.splits)
  with t have s: "fst (tryBlock inp initial pre) = Suspended" by simp
  have i: "timer initial" by (simp add: initial_def)
  obtain c' v' where t': "tryBlock inp initial (pre @ TimerFires # post) = (c', v')"
    by (cases "tryBlock inp initial (pre @ TimerFires # post)")
  from tryBlock_timeout [OF s assms(2) i, of post] t' finish_grows [of v' c'] show ?thesis
    by (auto simp: main_def main_from_def)
qed

text \<open>
  C6. When the timer fires while the run is suspended, the run is marked as failed with
  the message \<^verbatim>\<open>Job Timeout\<close>, and the mark stays. The polling is not abandoned: with
  the firing of the timer or without it the run ends the same way, with the same values
  of the module's variables and the same calls on the collaborators, apart from that
  mark.
\<close>

theorem timeout_marks_the_run_and_polling_goes_on:
  "(fst (main inp pre) = StillRunning \<and> TimerFires \<notin> set pre \<longrightarrow>
      SetFailed (Message ''Job Timeout'')
        \<in> set (effects (snd (main inp (pre @ TimerFires # post)))))
   \<and> fst (main inp evs) = fst (main inp (filter (\<lambda>e. e \<noteq> TimerFires) evs))
   \<and> untimed (effects (snd (main inp evs)))
       = untimed (effects (snd (main inp (filter (\<lambda>e. e \<noteq> TimerFires) evs))))
   \<and> sameState (snd (main inp evs)) (snd (main inp (filter (\<lambda>e. e \<noteq> TimerFires) evs)))"
proof (intro conjI impI)
  assume "fst (main inp pre) = StillRunning \<and> TimerFires \<notin> set pre"
  then show "SetFailed (Message ''Job Timeout'')
        \<in> set (effects (snd (main inp (pre @ TimerFires # post))))"
    using main_timeout [of inp pre post] by simp
next
  have a: "agree initial initial" by (rule agree_refl)
  from main_from_agree [OF a, of inp evs]
  show "fst (main inp evs) = fst (main inp (filter (\<lambda>e. e \<noteq> TimerFires) evs))"
    and "untimed (effects (snd (main inp evs)))
       = untimed (effects (snd (main inp (filter (\<lambda>e. e \<noteq> TimerFires) evs))))"
    and "sameState (snd (main inp evs)) (snd (main inp (filter (\<lambda>e. e \<noteq> TimerFires) evs)))"
    by (simp_all add: main_def agree_def)
qed

theorem timeout_marks_the_run_and_polling_goes_on_witness:
  "fst (main waiting [triggered ''https://ci/queue/5/'', assigned ''https://ci/build/5/''])
     = StillRunning
   \<and> TimerFires \<notin> set [triggered ''https://ci/queue/5/'', assigned ''https://ci/build/5/'']
   \<and> SetFailed (Message ''Job Timeout'')
       \<in> set (effects (snd (main waiting
           ([triggered ''https://ci/queue/5/'', assigned ''https://ci/build/5/''] @ TimerFires #
            replicate 4 (building (Some ''SUCCESS''))))))
   \<and> fst (main waiting
           ([triggered ''https://ci/queue/5/'', assigned ''https://ci/build/5/''] @ TimerFires #
            replicate 4 (building (Some ''SUCCESS'')))) = Finished"
proof -
  have h: "fst (main waiting [triggered ''https://ci/queue/5/'', assigned ''https://ci/build/5/''])
     = StillRunning
   \<and> TimerFires \<notin> set [triggered ''https://ci/queue/5/'', assigned ''https://ci/build/5/'']"
    by code_simp
  have f: "fst (main waiting
           ([triggered ''https://ci/queue/5/'', assigned ''https://ci/build/5/''] @ TimerFires #
            replicate 4 (building (Some ''SUCCESS'')))) = Finished"
    by code_simp
  from h f timeout_marks_the_run_and_polling_goes_on
    [of waiting "[triggered ''https://ci/queue/5/'', assigned ''https://ci/build/5/'']"
        "replicate 4 (building (Some ''SUCCESS''))" "[]"]
  show ?thesis by simp
qed

text \<open>
  Against the claim as it was stated: the timer fires while the first poll of the build
  is pending; the program sleeps and polls three more times, and ends when the build has
  reported success four times.
\<close>

theorem polling_after_timeout_counterexample:
  "main waiting
     [triggered ''https://ci/queue/5/'', assigned ''https://ci/build/5/'', TimerFires,
      building (Some ''SUCCESS''), building (Some ''SUCCESS''), building (Some ''SUCCESS''),
      building (Some ''SUCCESS'')]
     = (Finished,
        \<lparr>failureCount = 0, successCount = 3, jenkinsBuildUrl = Some ''https://ci/build/5/'',
         timer = False,
         effects = [Post ''https://ci/job/j/buildWithParameters'' [],
                    Get ''https://ci/queue/5/api/json'',
                    SetOutput ''jenkinsBuildUrl'' ''https://ci/build/5/'',
                    Get ''https://ci/build/5/api/json'',
                    SetFailed (Message ''Job Timeout''),
                    Sleep 10, Get ''https://ci/build/5/api/json'',
                    Sleep 10, Get ''https://ci/build/5/api/json'',
                    Sleep 10, Get ''https://ci/build/5/api/json'',
                    ClearTimeout]\<rparr>)"
  by code_simp

section \<open>Failures of the trigger, and the handler of main\<close>

text \<open>
  C7. What the program does when the reply to the trigger has no \<^verbatim>\<open>Location\<close> header,
  or when the trigger gets no reply at all: \<^verbatim>\<open>triggerJenkinsJob\<close> reports the failure
  itself, clears the timer and rejects without a value; the handler of \<^verbatim>\<open>main\<close> then
  reads the message of \<^verbatim>\<open>undefined\<close>, which throws, so that it reports nothing and
  \<^verbatim>\<open>main\<close> ends with a rejection of its own; the timer is cleared a second time on the
  way out.
\<close>

theorem trigger_failure_breaks_the_handler:
  "main waiting [Reply (Responded \<lparr>statusCode = 201, location = None, body = NoBody\<rparr>)]
     = (UnhandledRejection
          (TypeError (''Cannot read properties of undefined (reading '' @ quote @ ''message''
             @ quote @ '')'')),
        \<lparr>failureCount = 0, successCount = 0, jenkinsBuildUrl = None, timer = False,
         effects = [Post ''https://ci/job/j/buildWithParameters'' [],
                    SetFailed (Message ''Failed to find location header in response!''),
                    ClearTimeout, ClearTimeout]\<rparr>)
   \<and> main waiting [Reply (NetworkError ''connect ECONNREFUSED'')]
     = (UnhandledRejection
          (TypeError (''Cannot read properties of undefined (reading '' @ quote @ ''message''
             @ quote @ '')'')),
        \<lparr>failureCount = 0, successCount = 0, jenkinsBuildUrl = None, timer = False,
         effects = [Post ''https://ci/job/j/buildWithParameters'' [],
                    SetFailed (ErrorObject (RequestError ''connect ECONNREFUSED'')),
                    ClearTimeout, ClearTimeout]\<rparr>)"
  by code_simp

section \<open>A reply without a body\<close>

text \<open>
  C8. What the program does when a poll of the build is answered with status 200 and
  no body: \<^verbatim>\<open>JSON.parse\<close> throws inside the callback of the request, before the promise
  is settled and before line 164 is reached; nothing catches the exception. It is the
  body \<^verbatim>\<open>null\<close> that reaches line 164 and is followed by a sleep and a new poll.
\<close>

theorem empty_body_is_not_waited_for:
  "main waiting [triggered ''https://ci/queue/5/'', assigned ''https://ci/build/5/'', http 200 NoBody]
     = (UncaughtException (SyntaxError ''Unexpected end of JSON input''),
        \<lparr>failureCount = 0, successCount = 0, jenkinsBuildUrl = Some ''https://ci/build/5/'',
         timer = True,
         effects = [Post ''https://ci/job/j/buildWithParameters'' [],
                    Get ''https://ci/queue/5/api/json'',
                    SetOutput ''jenkinsBuildUrl'' ''https://ci/build/5/'',
                    Get ''https://ci/build/5/api/json'']\<rparr>)
   \<and> main waiting [triggered ''https://ci/queue/5/'', assigned ''https://ci/build/5/'', http 200 JsonNull]
     = (StillRunning,
        \<lparr>failureCount = 0, successCount = 0, jenkinsBuildUrl = Some ''https://ci/build/5/'',
         timer = True,
         effects = [Post ''https://ci/job/j/buildWithParameters'' [],
                    Get ''https://ci/queue/5/api/json'',
                    SetOutput ''jenkinsBuildUrl'' ''https://ci/build/5/'',
                    Get ''https://ci/build/5/api/json'',
                    Sleep 10,
                    Get ''https://ci/build/5/api/json'']\<rparr>)"
  by code_simp

section \<open>The input wait\<close>

lemma pollsOf_append: "pollsOf (xs @ ys) = pollsOf xs @ pollsOf ys"
  by (induction xs rule: pollsOf.induct) simp_all

lemma pollsOf_mem: "Get u \<in> set as \<Longrightarrow> u \<in> set (pollsOf as)"
  by (induction as rule: pollsOf.induct) auto

lemma timerCallback_idem: "timerCallback (timerCallback w) = timerCallback w"
  by (simp add: timerCallback_def emit_def)

text \<open>
  The reply to a request arrives after the timer has fired \<open>n\<close> times at most once in
  effect: the callback runs on the first firing only.
\<close>

lemma awaitReply_fired:
  "awaitReply w (replicate n TimerFires @ Reply r # rest)
     = (Some (r, rest), if n = 0 then w else timerCallback w)"
proof (induction n arbitrary: w)
  case 0
  then show ?case by simp
next
  case (Suc n)
  then show ?case by (simp add: timerCallback_idem)
qed

text \<open>
  C10. When the trigger is answered with a \<^verbatim>\<open>Location\<close> header, \<^verbatim>\<open>main\<close> goes on to
  \<^verbatim>\<open>waitJenkinsJob\<close>, and the queue item is polled, if the input \<^verbatim>\<open>wait\<close> is the
  string \<^verbatim>\<open>true\<close>. For every other value \<^verbatim>\<open>main\<close> ends at once, with no poll and no
  failure of its own: the run consists of the trigger and of the release of the timer,
  and it reports no failure unless the timer has fired before the trigger was answered,
  in which case the failure \<^verbatim>\<open>Job Timeout\<close> is the only one reported.
\<close>

theorem wait_input_decides_polling:
  "parseParameter (parameter inp) = Inr params \<and> location res = Some l \<and> truthy l \<longrightarrow>
     (wait inp = ''true'' \<longrightarrow>
        main inp (replicate n TimerFires @ Reply (Responded res) # rest)
          = finish (waitJenkinsJob (job_name inp) l
              (if n = 0
               then triggerJenkinsJob_request (endpoint inp) (job_name inp) params initial
               else timerCallback
                      (triggerJenkinsJob_request (endpoint inp) (job_name inp) params initial))
              rest) \<and>
        requestUrl l
          \<in> set (pollsOf (effects (snd (main inp
                 (replicate n TimerFires @ Reply (Responded res) # rest))))))
     \<and> (wait inp \<noteq> ''true'' \<longrightarrow>
        fst (main inp (replicate n TimerFires @ Reply (Responded res) # rest)) = Finished \<and>
        effects (snd (main inp (replicate n TimerFires @ Reply (Responded res) # rest)))
          = Post (endpoint inp @ ''/job/'' @ job_name inp @ ''/buildWithParameters'') params
            # (if n = 0 then [] else [SetFailed (Message ''Job Timeout'')]) @ [ClearTimeout] \<and>
        pollsOf (effects (snd (main inp
                 (replicate n TimerFires @ Reply (Responded res) # rest)))) = [] \<and>
        failuresOf (effects (snd (main inp
                 (replicate n TimerFires @ Reply (Responded res) # rest))))
          = (if n = 0 then [] else [Message ''Job Timeout'']))"
proof (intro impI)
  assume h: "parseParameter (parameter inp) = Inr params \<and> location res = Some l \<and> truthy l"
  let ?evs = "replicate n TimerFires @ Reply (Responded res) # rest"
  let ?w0 = "triggerJenkinsJob_request (endpoint inp) (job_name inp) params initial"
  let ?w1 = "if n = 0 then ?w0 else timerCallback ?w0"
  have a: "awaitReply ?w0 ?evs = (Some (Responded res, rest), ?w1)"
    by (rule awaitReply_fired)
  from h have t: "triggerJenkinsJob (Responded res) ?w1 = (Returned l, ?w1)"
    by (simp add: triggerJenkinsJob_def triggerJenkinsJob_callback_def)
  from h a t have m: "main inp ?evs = finish (afterTrigger inp (Responded res) ?w1 rest)"
    by (simp add: main_def main_from_def tryBlock_def)
  have e1: "effects ?w1
          = Post (endpoint inp @ ''/job/'' @ job_name inp @ ''/buildWithParameters'') params
            # (if n = 0 then [] else [SetFailed (Message ''Job Timeout'')])"
    by (simp add: triggerJenkinsJob_request_def timerCallback_def emit_def initial_def)
  show "(wait inp = ''true'' \<longrightarrow>
        main inp ?evs = finish (waitJenkinsJob (job_name inp) l ?w1 rest) \<and>
        requestUrl l \<in> set (pollsOf (effects (snd (main inp ?evs)))))
     \<and> (wait inp \<noteq> ''true'' \<longrightarrow>
        fst (main inp ?evs) = Finished \<and>
        effects (snd (main inp ?evs))
          = Post (endpoint inp @ ''/job/'' @ job_name inp @ ''/buildWithParameters'') params
            # (if n = 0 then [] else [SetFailed (Message ''Job Timeout'')]) @ [ClearTimeout] \<and>
        pollsOf (effects (snd (main inp ?evs))) = [] \<and>
        failuresOf (effects (snd (main inp ?evs)))
          = (if n = 0 then [] else [Message ''Job Timeout'']))"
  proof (intro conjI impI)
    assume w: "wait inp = ''true''"
    with m t show e: "main inp ?evs = finish (waitJenkinsJob (job_name inp) l ?w1 rest)"
      by (simp add: afterTrigger_def)
    obtain c v where x: "waitJenkinsJob (job_name inp) l ?w1 rest = (c, v)"
      by (cases "waitJenkinsJob (job_name inp) l ?w1 rest")
    have "Get (requestUrl l) \<in> set (effects (getJobStatus_request l ?w1))"
      by (simp add: getJobStatus_request_def emit_def)
    with polling_grows [of "getJobStatus_request l ?w1" "job_name inp" l None rest] x
    have "Get (requestUrl l) \<in> set (effects v)"
      by (auto simp: waitJenkinsJob_def)
    with finish_grows [of v c] e x have "Get (requestUrl l) \<in> set (effects (snd (main inp ?evs)))"
      by auto
    then show "requestUrl l \<in> set (pollsOf (effects (snd (main inp ?evs))))"
      by (rule pollsOf_mem)
  next
    assume w: "wait inp \<noteq> ''true''"
    with m t have e: "main inp ?evs = (Finished, clearTimeout ?w1)"
      by (simp add: afterTrigger_def)
    then show "fst (main inp ?evs) = Finished" by simp
    from e e1 show f: "effects (snd (main inp ?evs))
          = Post (endpoint inp @ ''/job/'' @ job_name inp @ ''/buildWithParameters'') params
            # (if n = 0 then [] else [SetFailed (Message ''Job Timeout'')]) @ [ClearTimeout]"
      by (simp add: clearTimeout_def emit_def)
    show "pollsOf (effects (snd (main inp ?evs))) = []"
      by (simp add: f)
    show "failuresOf (effects (snd (main inp ?evs)))
          = (if n = 0 then [] else [Message ''Job Timeout''])"
      by (simp add: f)
  qed
qed

theorem wait_input_decides_polling_witness:
  "parseParameter (parameter (waiting\<lparr>wait := ''True''\<rparr>)) = Inr []
   \<and> truthy ''https://ci/queue/5/''
   \<and> wait (waiting\<lparr>wait := ''True''\<rparr>) \<noteq> ''true''
   \<and> fst (main (waiting\<lparr>wait := ''True''\<rparr>)
            [triggered ''https://ci/queue/5/'', assigned ''https://ci/build/5/'']) = Finished
   \<and> effects (snd (main (waiting\<lparr>wait := ''True''\<rparr>)
            [triggered ''https://ci/queue/5/'', assigned ''https://ci/build/5/'']))
       = [Post ''https://ci/job/j/buildWithParameters'' [], ClearTimeout]
   \<and> failuresOf (effects (snd (main (waiting\<lparr>wait := ''True''\<rparr>)
            [triggered ''https://ci/queue/5/'', assigned ''https://ci/build/5/'']))) = []
   \<and> failuresOf (effects (snd (main (waiting\<lparr>wait := ''True''\<rparr>)
            [TimerFires, triggered ''https://ci/queue/5/'', assigned ''https://ci/build/5/''])))
       = [Message ''Job Timeout'']
   \<and> pollsOf (effects (snd (main (waiting\<lparr>wait := ''True''\<rparr>)
            [TimerFires, triggered ''https://ci/queue/5/'', assigned ''https://ci/build/5/''])))
       = []
   \<and> wait waiting = ''true''
   \<and> ''https://ci/queue/5/api/json''
       \<in> set (pollsOf (effects (snd (main waiting
            [triggered ''https://ci/queue/5/'', assigned ''https://ci/build/5/'']))))"
proof -
  let ?res = "\<lparr>statusCode = 201, location = Some ''https://ci/queue/5/'', body = NoBody\<rparr>"
  let ?rest = "[assigned ''https://ci/build/5/'']"
  let ?off = "waiting\<lparr>wait := ''True''\<rparr>"
  have t: "truthy ''https://ci/queue/5/''"
    by (simp add: truthy_def)
  have p1: "parseParameter (parameter ?off) = Inr []"
    and p2: "parseParameter (parameter waiting) = Inr []"
    by (simp_all add: waiting_def)
  have h1: "parseParameter (parameter ?off) = Inr [] \<and>
            location ?res = Some ''https://ci/queue/5/'' \<and> truthy ''https://ci/queue/5/''"
    using p1 t by simp
  have h2: "parseParameter (parameter waiting) = Inr [] \<and>
            location ?res = Some ''https://ci/queue/5/'' \<and> truthy ''https://ci/queue/5/''"
    using p2 t by simp
  have w1: "wait ?off \<noteq> ''true''"
    by simp
  have w2: "wait waiting = ''true''"
    by (simp add: waiting_def)
  have en: "endpoint ?off @ ''/job/'' @ job_name ?off @ ''/buildWithParameters''
            = ''https://ci/job/j/buildWithParameters''"
    by (simp add: waiting_def)
  have u: "requestUrl ''https://ci/queue/5/'' = ''https://ci/queue/5/api/json''"
    by (simp add: requestUrl_def normalizeUrl_def endsWith_def)
  have ev0: "replicate 0 TimerFires @ Reply (Responded ?res) # ?rest
               = [triggered ''https://ci/queue/5/'', assigned ''https://ci/build/5/'']"
    by (simp add: triggered_def)
  have ev1: "replicate 1 TimerFires @ Reply (Responded ?res) # ?rest
               = [TimerFires, triggered ''https://ci/queue/5/'', assigned ''https://ci/build/5/'']"
    by (simp add: triggered_def)
  from wait_input_decides_polling
      [of ?off "[]" ?res "''https://ci/queue/5/''" 0 ?rest] h1 w1
  have a0: "fst (main ?off (replicate 0 TimerFires @ Reply (Responded ?res) # ?rest)) = Finished"
    and b0: "effects (snd (main ?off (replicate 0 TimerFires @ Reply (Responded ?res) # ?rest)))
          = Post (endpoint ?off @ ''/job/'' @ job_name ?off @ ''/buildWithParameters'') []
            # (if (0::nat) = 0 then [] else [SetFailed (Message ''Job Timeout'')]) @ [ClearTimeout]"
    and c0: "failuresOf (effects (snd (main ?off
                (replicate 0 TimerFires @ Reply (Responded ?res) # ?rest))))
          = (if (0::nat) = 0 then [] else [Message ''Job Timeout''])"
    by blast+
  from wait_input_decides_polling
      [of ?off "[]" ?res "''https://ci/queue/5/''" 1 ?rest] h1 w1
  have c1: "failuresOf (effects (snd (main ?off
                (replicate 1 TimerFires @ Reply (Responded ?res) # ?rest))))
          = (if (1::nat) = 0 then [] else [Message ''Job Timeout''])"
    and d1: "pollsOf (effects (snd (main ?off
                (replicate 1 TimerFires @ Reply (Responded ?res) # ?rest)))) = []"
    by blast+
  from wait_input_decides_polling
      [of waiting "[]" ?res "''https://ci/queue/5/''" 0 ?rest] h2 w2
  have p: "requestUrl ''https://ci/queue/5/''
        \<in> set (pollsOf (effects (snd (main waiting
              (replicate 0 TimerFires @ Reply (Responded ?res) # ?rest)))))"
    by blast
  have r4: "fst (main ?off [triggered ''https://ci/queue/5/'', assigned ''https://ci/build/5/''])
             = Finished"
    using a0 by (simp only: ev0)
  have r5: "effects (snd (main ?off
              [triggered ''https://ci/queue/5/'', assigned ''https://ci/build/5/'']))
       = [Post ''https://ci/job/j/buildWithParameters'' [], ClearTimeout]"
    using b0 by (simp only: ev0 en) simp
  have r6: "failuresOf (effects (snd (main ?off
              [triggered ''https://ci/queue/5/'', assigned ''https://ci/build/5/'']))) = []"
    using c0 by (simp only: ev0) simp
  have r7: "failuresOf (effects (snd (main ?off
              [TimerFires, triggered ''https://ci/queue/5/'', assigned ''https://ci/build/5/''])))
       = [Message ''Job Timeout'']"
    using c1 by (simp only: ev1) simp
  have r8: "pollsOf (effects (snd (main ?off
              [TimerFires, triggered ''https://ci/queue/5/'', assigned ''https://ci/build/5/''])))
       = []"
    using d1 by (simp only: ev1)
  have r10: "''https://ci/queue/5/api/json''
       \<in> set (pollsOf (effects (snd (main waiting
            [triggered ''https://ci/queue/5/'', assigned ''https://ci/build/5/'']))))"
    using p by (simp only: ev0 u)
  from p1 t w1 r4 r5 r6 r7 r8 w2 r10 show ?thesis
    by (intro conjI)
qed

text \<open>
  Against the claim as it was stated: the input \<^verbatim>\<open>wait\<close> is not \<^verbatim>\<open>true\<close> and the
  trigger is answered with a \<^verbatim>\<open>Location\<close> header, but the timer has fired before the
  answer (a timeout of zero seconds does that): the run ends at once without a poll,
  and it is reported as failed.
\<close>

theorem success_without_wait_counterexample:
  "wait (waiting\<lparr>wait := ''True''\<rparr>) \<noteq> ''true''
   \<and> main (waiting\<lparr>wait := ''True''\<rparr>) [TimerFires, triggered ''https://ci/queue/5/'']
     = (Finished,
        \<lparr>failureCount = 0, successCount = 0, jenkinsBuildUrl = None, timer = False,
         effects = [Post ''https://ci/job/j/buildWithParameters'' [],
                    SetFailed (Message ''Job Timeout''),
                    ClearTimeout]\<rparr>)"
  by code_simp

end
